theory Spec2Isabelle
  imports Complex_Main
begin

section \<open>Numbers\<close>

text \<open>
  The validator of \<^verbatim>\<open>validate_theorem.py\<close> computes with Python integers,
  Python floats and \<^verbatim>\<open>mpmath\<close> values. Positions and run lengths are
  indices and counters that start at 0 and only grow, so they are natural numbers; the bits
  are Python integers. A real-valued quantity is an exact real number here: rounding to the
  configured precision is not part of this development. A Python float can also be
  \<^verbatim>\<open>float('inf')\<close>, which the source produces itself, and not-a-number.
\<close>

datatype pyfloat = Fin real | PInf | NaN

text \<open>Python's \<^verbatim>\<open><\<close> and \<^verbatim>\<open><=\<close> on floats: every comparison with
  not-a-number is false.\<close>

fun pf_less :: "pyfloat \<Rightarrow> pyfloat \<Rightarrow> bool" where
  "pf_less (Fin a) (Fin b) = (a < b)"
| "pf_less (Fin a) PInf = True"
| "pf_less _ _ = False"

fun pf_le :: "pyfloat \<Rightarrow> pyfloat \<Rightarrow> bool" where
  "pf_le (Fin a) (Fin b) = (a \<le> b)"
| "pf_le (Fin a) PInf = True"
| "pf_le PInf PInf = True"
| "pf_le _ _ = False"

text \<open>The builtin \<^verbatim>\<open>max(a, b)\<close> keeps its first argument unless the second is
  greater.\<close>

definition py_max :: "pyfloat \<Rightarrow> pyfloat \<Rightarrow> pyfloat" where
  "py_max a b = (if pf_less a b then b else a)"

fun is_finite :: "pyfloat \<Rightarrow> bool" where
  "is_finite (Fin a) = True"
| "is_finite _ = False"

text \<open>\<^verbatim>\<open>float(x)\<close> of a number keeps its value, infinity included.\<close>

definition float_of :: "pyfloat \<Rightarrow> pyfloat" where
  "float_of x = x"

datatype error = TypeError | StatisticsError | LibraryError

section \<open>Binary expansion of the fractional part\<close>

text \<open>
  \<^verbatim>\<open>get_binary_expansion\<close>: the loop \<^verbatim>\<open>for _ in range(length)\<close> doubles
  the fraction, appends its integer part and subtracts it. \<open>expand\<close> is that loop;
  \<^verbatim>\<open>range\<close> of a negative length is empty.
\<close>

fun expand :: "real \<Rightarrow> nat \<Rightarrow> int list" where
  "expand mp_frac 0 = []"
| "expand mp_frac (Suc k) =
     (let doubled = mp_frac * 2;
          b = \<lfloor>doubled\<rfloor>
      in b # expand (doubled - of_int b) k)"

definition get_binary_expansion :: "real \<Rightarrow> int \<Rightarrow> int list" where
  "get_binary_expansion num len =
     (let mp_num = num;
          mp_frac = mp_num - of_int \<lfloor>mp_num\<rfloor>
      in expand mp_frac (nat len))"

section \<open>Zero runs\<close>

text \<open>
  \<^verbatim>\<open>find_zero_runs\<close> scans the bits once with three variables. The variable
  \<^verbatim>\<open>start_position\<close> is \<^verbatim>\<open>None\<close> or an index, and the tuples appended
  to \<^verbatim>\<open>runs\<close> carry it as it is, so the first component of a run is optional here as
  well.
\<close>

record scan_state =
  runs :: "(nat option \<times> nat) list"
  current_run :: nat
  start_position :: "nat option"

definition scan_init :: scan_state where
  "scan_init = \<lparr>runs = [], current_run = 0, start_position = None\<rparr>"

definition scan_step :: "nat \<times> int \<Rightarrow> scan_state \<Rightarrow> scan_state" where
  "scan_step ib st =
     (case ib of (i, b) \<Rightarrow>
        if b = 0 then
          st\<lparr>start_position := (if start_position st = None then Some i else start_position st),
             current_run := current_run st + 1\<rparr>
        else
          \<lparr>runs = (if current_run st > 0
                   then runs st @ [(start_position st, current_run st)]
                   else runs st),
           current_run = 0,
           start_position = None\<rparr>)"

definition find_zero_runs :: "int list \<Rightarrow> (nat option \<times> nat) list" where
  "find_zero_runs binary =
     (let st = fold scan_step (enumerate 0 binary) scan_init
      in if current_run st > 0
         then runs st @ [(start_position st, current_run st)]
         else runs st)"

section \<open>The statistics module\<close>

text \<open>
  The source imports \<^verbatim>\<open>mean\<close>, \<^verbatim>\<open>median\<close> and \<^verbatim>\<open>stdev\<close> from
  Python's \<^verbatim>\<open>statistics\<close> module. On finite data they are the functions below:
  each raises \<^verbatim>\<open>StatisticsError\<close> on too few data points, the median sorts the data
  and takes the middle element or the average of the two middle ones, and the sample
  standard deviation divides by \<open>n - 1\<close>.
\<close>

definition mean :: "real list \<Rightarrow> error + real" where
  "mean xs = (if xs = [] then Inl StatisticsError
              else Inr (sum_list xs / real (length xs)))"

definition median :: "real list \<Rightarrow> error + real" where
  "median xs =
     (let data = sort xs; n = length data
      in if n = 0 then Inl StatisticsError
         else if n mod 2 = 1 then Inr (data ! (n div 2))
         else (let i = n div 2 in Inr ((data ! (i - 1) + data ! i) / 2)))"

definition stdev :: "real list \<Rightarrow> error + real" where
  "stdev xs =
     (let n = length xs
      in if n < 2 then Inl StatisticsError
         else (let c = sum_list xs / real n;
                   ss = sum_list (map (\<lambda>x. (x - c)\<^sup>2) xs)
               in Inr (sqrt (ss / real (n - 1)))))"

fun finite_values :: "pyfloat list \<Rightarrow> real list option" where
  "finite_values [] = Some []"
| "finite_values (Fin a # rs) = map_option ((#) a) (finite_values rs)"
| "finite_values (_ # rs) = None"

text \<open>
  What the three functions return or raise on data that holds an infinity differs between
  versions of the module, and the source does not fix one. That behaviour is the parameter
  \<open>lib\<close> of everything below: it maps such data to the three values, or to the exception.
  The source evaluates the three calls in the order mean, median, stdev.
\<close>

type_synonym nonfinite_lib = "pyfloat list \<Rightarrow> error + (pyfloat \<times> pyfloat \<times> pyfloat)"

definition mean_median_stdev ::
  "nonfinite_lib \<Rightarrow> pyfloat list \<Rightarrow> error + (pyfloat \<times> pyfloat \<times> pyfloat)" where
  "mean_median_stdev lib ratios =
     (case finite_values ratios of
        None \<Rightarrow> lib ratios
      | Some xs \<Rightarrow>
          (case mean xs of Inl e \<Rightarrow> Inl e | Inr m \<Rightarrow>
           case median xs of Inl e \<Rightarrow> Inl e | Inr md \<Rightarrow>
           case stdev xs of Inl e \<Rightarrow> Inl e | Inr sd \<Rightarrow>
             Inr (Fin m, Fin md, Fin sd)))"

section \<open>Validation of one number\<close>

text \<open>
  The dictionaries of \<^verbatim>\<open>validate_number\<close> have fixed keys and are records. An
  entry of \<^verbatim>\<open>run_data\<close> has the keys \<^verbatim>\<open>position\<close>, \<^verbatim>\<open>length\<close>,
  \<^verbatim>\<open>bound\<close>, \<^verbatim>\<open>ratio\<close>; an entry of \<^verbatim>\<open>violations\<close> has
  \<^verbatim>\<open>position\<close>, \<^verbatim>\<open>run_length\<close>, \<^verbatim>\<open>bound\<close>, \<^verbatim>\<open>ratio\<close>;
  the buckets \<^verbatim>\<open>'0-33%'\<close>, \<^verbatim>\<open>'33-66%'\<close>, \<^verbatim>\<open>'66-100%'\<close> are
  \<open>low\<close>, \<open>medium\<close>, \<open>high\<close>. The empty dictionary \<^verbatim>\<open>stats = {}\<close> is
  \<open>None\<close>.
\<close>

record run_datum =
  d_position :: nat
  d_length :: nat
  d_bound :: pyfloat
  d_ratio :: pyfloat

record violation =
  v_position :: nat
  v_run_length :: nat
  v_bound :: pyfloat
  v_ratio :: pyfloat

record distribution =
  low :: nat
  medium :: nat
  high :: nat

record ratio_stats =
  mean_ratio :: pyfloat
  median_ratio :: pyfloat
  std_ratio :: pyfloat
  ratio_distribution :: distribution

record validation_result =
  valid :: bool
  violations :: "violation list"
  max_ratio :: pyfloat
  total_runs :: nat
  binary_prefix :: "int list"
  stats :: "ratio_stats option"
  number_type :: string
  factor :: real
  factor_name :: string
  number :: real
  run_data :: "run_datum list"

text \<open>The variables that the loop over the zero runs updates.\<close>

record loop_state =
  ls_max_ratio :: pyfloat
  ls_run_data :: "run_datum list"
  ls_violations :: "violation list"

text \<open>\<^verbatim>\<open>bound = factor * math.log2(position + 1)\<close> and
  \<^verbatim>\<open>ratio = run_length / bound if bound > 0 else float('inf')\<close>.\<close>

definition bound_of :: "real \<Rightarrow> nat \<Rightarrow> real" where
  "bound_of fac position = fac * log 2 (real (position + 1))"

definition ratio_of :: "real \<Rightarrow> nat \<Rightarrow> nat \<Rightarrow> pyfloat" where
  "ratio_of fac position run_length =
     (let bound = bound_of fac position
      in if bound > 0 then Fin (real run_length / bound) else PInf)"

text \<open>The body of the loop for a run that is not skipped.\<close>

definition analyze_run :: "real \<Rightarrow> nat \<times> nat \<Rightarrow> loop_state \<Rightarrow> loop_state" where
  "analyze_run fac pl st =
     (case pl of (position, run_length) \<Rightarrow>
        let bound = bound_of fac position;
            ratio = ratio_of fac position run_length
        in \<lparr>ls_max_ratio = py_max (ls_max_ratio st) ratio,
            ls_run_data = ls_run_data st @
              [\<lparr>d_position = position, d_length = run_length,
                d_bound = Fin bound, d_ratio = ratio\<rparr>],
            ls_violations =
              (if pf_less (Fin 1) ratio
               then ls_violations st @
                      [\<lparr>v_position = position, v_run_length = run_length,
                        v_bound = Fin bound, v_ratio = ratio\<rparr>]
               else ls_violations st)\<rparr>)"

text \<open>The loop \<^verbatim>\<open>for position, run_length in zero_runs\<close>. The comparison
  \<^verbatim>\<open>position < 1\<close> raises \<^verbatim>\<open>TypeError\<close> on \<^verbatim>\<open>None\<close>.\<close>

fun analyze_runs :: "real \<Rightarrow> (nat option \<times> nat) list \<Rightarrow> loop_state \<Rightarrow> error + loop_state" where
  "analyze_runs fac [] st = Inr st"
| "analyze_runs fac ((None, run_length) # rest) st = Inl TypeError"
| "analyze_runs fac ((Some position, run_length) # rest) st =
     (if position < 1 then analyze_runs fac rest st
      else analyze_runs fac rest (analyze_run fac (position, run_length) st))"

text \<open>The three list comprehensions of \<^verbatim>\<open>'ratio_distribution'\<close>:
  \<^verbatim>\<open>r < 0.33\<close>, \<^verbatim>\<open>0.33 <= r < 0.66\<close>, \<^verbatim>\<open>r >= 0.66\<close>.\<close>

definition distribution_of :: "pyfloat list \<Rightarrow> distribution" where
  "distribution_of ratios =
     \<lparr>low = length (filter (\<lambda>r. pf_less r (Fin 0.33)) ratios),
      medium = length (filter (\<lambda>r. pf_le (Fin 0.33) r \<and> pf_less r (Fin 0.66)) ratios),
      high = length (filter (\<lambda>r. pf_le (Fin 0.66) r) ratios)\<rparr>"

text \<open>The dictionary \<^verbatim>\<open>stats = {...}\<close> built from \<^verbatim>\<open>ratios\<close>, and the
  branch \<^verbatim>\<open>if run_data: ... else: stats = {}\<close> around it.\<close>

definition stats_of :: "nonfinite_lib \<Rightarrow> pyfloat list \<Rightarrow> error + ratio_stats" where
  "stats_of lib ratios =
     (case mean_median_stdev lib ratios of
        Inl e \<Rightarrow> Inl e
      | Inr (m, md, sd) \<Rightarrow>
          Inr \<lparr>mean_ratio = m, median_ratio = md, std_ratio = sd,
               ratio_distribution = distribution_of ratios\<rparr>)"

definition calculate_statistics ::
  "nonfinite_lib \<Rightarrow> run_datum list \<Rightarrow> error + ratio_stats option" where
  "calculate_statistics lib rd =
     (if rd \<noteq> [] then
        (case stats_of lib (map d_ratio rd) of
           Inl e \<Rightarrow> Inl e
         | Inr s \<Rightarrow> Inr (Some s))
      else Inr None)"

text \<open>The name of the factor of a transcendental number starts with the Greek letter mu,
  two bytes in UTF-8.\<close>

definition mu_name :: string where
  "mu_name = CHR 0xCE # CHR 0xBC # '' (irrationality measure)''"

text \<open>\<^verbatim>\<open>validate_number\<close>. Printing the analysis does not change the result and is
  left out.\<close>

definition validate_number ::
  "nonfinite_lib \<Rightarrow> real \<Rightarrow> real \<Rightarrow> int \<Rightarrow> bool \<Rightarrow> error + validation_result" where
  "validate_number lib num fac len is_transcendental =
     (let binary = get_binary_expansion num len;
          zero_runs = find_zero_runs binary;
          ntype = (if is_transcendental then ''transcendental'' else ''algebraic'');
          fname = (if is_transcendental then mu_name else ''d (degree)'')
      in case analyze_runs fac zero_runs
                \<lparr>ls_max_ratio = Fin 0, ls_run_data = [], ls_violations = []\<rparr> of
           Inl e \<Rightarrow> Inl e
         | Inr st \<Rightarrow>
             (case calculate_statistics lib (ls_run_data st) of
                Inl e \<Rightarrow> Inl e
              | Inr sts \<Rightarrow>
                  Inr \<lparr>valid = (length (ls_violations st) = 0),
                       violations = ls_violations st,
                       max_ratio = ls_max_ratio st,
                       total_runs = length zero_runs,
                       binary_prefix = take 50 binary,
                       stats = sts,
                       number_type = ntype,
                       factor = fac,
                       factor_name = fname,
                       number = num,
                       run_data = ls_run_data st\<rparr>))"

section \<open>The report\<close>

text \<open>
  \<^verbatim>\<open>create_report\<close> turns each pair of a test case and its result into one
  dictionary and hands the list to \<^verbatim>\<open>json.dump\<close>. The list of dictionaries is the
  report here; writing the file is not modelled. \<^verbatim>\<open>convert_to_serializable\<close>
  walks lists and dictionaries and converts the numbers in them with \<^verbatim>\<open>float\<close>.
\<close>

record test_case =
  c_number :: real
  c_factor :: real
  c_name :: string
  c_type :: string

record report_entry =
  e_name :: string
  e_type :: string
  e_number :: pyfloat
  e_factor :: pyfloat
  e_factor_name :: string
  e_valid :: bool
  e_max_ratio :: pyfloat
  e_total_runs :: nat
  e_violations :: "violation list"
  e_stats :: "ratio_stats option"
  e_binary_prefix :: string
  e_run_data :: "run_datum list"

text \<open>\<^verbatim>\<open>str\<close> of an integer, in decimal.\<close>

fun str_nat :: "nat \<Rightarrow> string" where
  "str_nat n = (if n < 10 then [char_of (48 + n)]
                else str_nat (n div 10) @ [char_of (48 + n mod 10)])"

declare str_nat.simps [simp del]

definition str_int :: "int \<Rightarrow> string" where
  "str_int i = (if i < 0 then CHR ''-'' # str_nat (nat (- i)) else str_nat (nat i))"

definition convert_violation :: "violation \<Rightarrow> violation" where
  "convert_violation v =
     \<lparr>v_position = v_position v, v_run_length = v_run_length v,
      v_bound = float_of (v_bound v), v_ratio = float_of (v_ratio v)\<rparr>"

definition convert_run_datum :: "run_datum \<Rightarrow> run_datum" where
  "convert_run_datum d =
     \<lparr>d_position = d_position d, d_length = d_length d,
      d_bound = float_of (d_bound d), d_ratio = float_of (d_ratio d)\<rparr>"

definition convert_stats :: "ratio_stats \<Rightarrow> ratio_stats" where
  "convert_stats s =
     \<lparr>mean_ratio = float_of (mean_ratio s), median_ratio = float_of (median_ratio s),
      std_ratio = float_of (std_ratio s), ratio_distribution = ratio_distribution s\<rparr>"

definition report_entry_of :: "test_case \<times> validation_result \<Rightarrow> report_entry" where
  "report_entry_of cr =
     (case cr of (c, result) \<Rightarrow>
        \<lparr>e_name = c_name c,
         e_type = c_type c,
         e_number = float_of (Fin (number result)),
         e_factor = float_of (Fin (factor result)),
         e_factor_name = factor_name result,
         e_valid = valid result,
         e_max_ratio = float_of (max_ratio result),
         e_total_runs = total_runs result,
         e_violations = map convert_violation (violations result),
         e_stats = map_option convert_stats (stats result),
         e_binary_prefix = concat (map str_int (binary_prefix result)),
         e_run_data = map convert_run_datum (run_data result)\<rparr>)"

definition create_report :: "(test_case \<times> validation_result) list \<Rightarrow> report_entry list" where
  "create_report results = map report_entry_of results"

text \<open>One iteration of the loop of \<^verbatim>\<open>run_analysis\<close>: the flag
  \<^verbatim>\<open>is_transcendental\<close> is read off the type of the test case.\<close>

definition run_case ::
  "nonfinite_lib \<Rightarrow> int \<Rightarrow> test_case \<Rightarrow> error + (test_case \<times> validation_result)" where
  "run_case lib test_length c =
     (case validate_number lib (c_number c) (c_factor c) test_length
             (c_type c = ''transcendental'') of
        Inl e \<Rightarrow> Inl e
      | Inr result \<Rightarrow> Inr (c, result))"

section \<open>Notions used in the statements\<close>

text \<open>
  A run list whose start positions are all present, as a list of pairs of numbers; the
  properties of such a list; the runs that the loop of \<^verbatim>\<open>validate_number\<close> does
  not skip; and the quotient of length and bound written out.
\<close>

definition with_start :: "(nat \<times> nat) list \<Rightarrow> (nat option \<times> nat) list" where
  "with_start rs = map (\<lambda>(s, l). (Some s, l)) rs"

definition non_overlapping :: "(nat \<times> nat) list \<Rightarrow> bool" where
  "non_overlapping rs \<longleftrightarrow>
     (\<forall>j<length rs. \<forall>i<j. fst (rs ! i) + snd (rs ! i) \<le> fst (rs ! j))"

definition ascending_starts :: "(nat \<times> nat) list \<Rightarrow> bool" where
  "ascending_starts rs \<longleftrightarrow> sorted_wrt (<) (map fst rs)"

definition zero_count :: "int list \<Rightarrow> nat" where
  "zero_count bits = length (filter (\<lambda>b. b = 0) bits)"

definition maximal_run :: "int list \<Rightarrow> nat \<Rightarrow> nat \<Rightarrow> bool" where
  "maximal_run bits s l \<longleftrightarrow>
     0 < l \<and> s + l \<le> length bits \<and>
     (\<forall>k<l. bits ! (s + k) = 0) \<and>
     (s = 0 \<or> bits ! (s - 1) = 1) \<and>
     (s + l = length bits \<or> bits ! (s + l) = 1)"



definition arithmetic_mean :: "real list \<Rightarrow> real" where
  "arithmetic_mean xs = sum_list xs / real (length xs)"

definition midpoint_median :: "real list \<Rightarrow> real" where
  "midpoint_median xs =
     (let s = sort xs; n = length s
      in if even n then (s ! (n div 2 - 1) + s ! (n div 2)) / 2 else s ! (n div 2))"

text \<open>
  A test case with factor 0 and the result that \<^verbatim>\<open>validate_number\<close> returns for it
  on five bits when the statistics module answers infinite data with an infinite mean and
  median and an undefined deviation.
\<close>

definition example_case :: test_case where
  "example_case = \<lparr>c_number = 5 / 8, c_factor = 0, c_name = ''x'', c_type = ''algebraic''\<rparr>"

definition example_result :: validation_result where
  "example_result =
     \<lparr>valid = False,
      violations = [\<lparr>v_position = 1, v_run_length = 1, v_bound = Fin 0, v_ratio = PInf\<rparr>,
                    \<lparr>v_position = 3, v_run_length = 2, v_bound = Fin 0, v_ratio = PInf\<rparr>],
      max_ratio = PInf, total_runs = 2, binary_prefix = [1, 0, 1, 0, 0],
      stats = Some \<lparr>mean_ratio = PInf, median_ratio = PInf, std_ratio = NaN,
                    ratio_distribution = \<lparr>low = 0, medium = 0, high = 2\<rparr>\<rparr>,
      number_type = ''algebraic'', factor = 0, factor_name = ''d (degree)'',
      number = 5 / 8,
      run_data = [\<lparr>d_position = 1, d_length = 1, d_bound = Fin 0, d_ratio = PInf\<rparr>,
                  \<lparr>d_position = 3, d_length = 2, d_bound = Fin 0, d_ratio = PInf\<rparr>]\<rparr>"

section \<open>The invariant of the scan\<close>

definition scan :: "int list \<Rightarrow> scan_state" where
  "scan bits = fold scan_step (enumerate 0 bits) scan_init"

text \<open>A run that a non-zero bit has closed, a run that may also end with the sequence,
  and the state of the scan after the bits read so far.\<close>

definition settled :: "int list \<Rightarrow> nat \<Rightarrow> nat \<Rightarrow> bool" where
  "settled bits s l \<longleftrightarrow>
     0 < l \<and> s + l < length bits \<and> bits ! (s + l) \<noteq> 0 \<and>
     (\<forall>k<l. bits ! (s + k) = 0) \<and> (s = 0 \<or> bits ! (s - 1) \<noteq> 0)"

definition closed_run :: "int list \<Rightarrow> nat \<Rightarrow> nat \<Rightarrow> bool" where
  "closed_run bits s l \<longleftrightarrow>
     0 < l \<and> s + l \<le> length bits \<and>
     (\<forall>k<l. bits ! (s + k) = 0) \<and>
     (s = 0 \<or> bits ! (s - 1) \<noteq> 0) \<and>
     (s + l = length bits \<or> bits ! (s + l) \<noteq> 0)"

definition scan_inv :: "int list \<Rightarrow> scan_state \<Rightarrow> (nat \<times> nat) list \<Rightarrow> bool" where
  "scan_inv bits st rs \<longleftrightarrow>
     runs st = with_start rs \<and>
     current_run st \<le> length bits \<and>
     start_position st =
       (if current_run st = 0 then None else Some (length bits - current_run st)) \<and>
     (\<forall>k<current_run st. bits ! (length bits - current_run st + k) = 0) \<and>
     (current_run st < length bits \<longrightarrow> bits ! (length bits - current_run st - 1) \<noteq> 0) \<and>
     (\<forall>(s, l)\<in>set rs. settled bits s l \<and> s + l < length bits - current_run st) \<and>
     sorted_wrt (\<lambda>a b. fst a + snd a < fst b) rs \<and>
     sum_list (map snd rs) + current_run st = zero_count bits"

text \<open>The state of the loop of \<^verbatim>\<open>validate_number\<close> after all runs, and the
  property that every ratio in it is finite.\<close>

definition analysis_of :: "real \<Rightarrow> (nat \<times> nat) list \<Rightarrow> loop_state" where
  "analysis_of fac rs =
     fold (analyze_run fac) (filter (\<lambda>r. 1 \<le> fst r) rs)
       \<lparr>ls_max_ratio = Fin 0, ls_run_data = [], ls_violations = []\<rparr>"


section \<open>The binary expansion\<close>






lemma gbe_half: "get_binary_expansion (1 / 2) 8 = [1, 0, 0, 0, 0, 0, 0, 0]"
  by code_simp

lemma gbe_five_eighths: "get_binary_expansion (5 / 8) 5 = [1, 0, 1, 0, 0]"
  by code_simp


lemma fzr_10100: "find_zero_runs [1, 0, 1, 0, 0] = [(Some 1, 1), (Some 3, 2)]"
  by code_simp

lemma fzr_10000000: "find_zero_runs [1, 0, 0, 0, 0, 0, 0, 0] = [(Some 1, 7)]"
  by code_simp


lemma log_2_4: "log 2 4 = 2"
proof -
  have "log 2 4 = log 2 (2 ^ 2)" by simp
  also have "\<dots> = 2" by (simp only: log_pow_cancel)
  finally show ?thesis .
qed

section \<open>The zero runs\<close>

lemma scan_snoc: "scan (bits @ [b]) = scan_step (length bits, b) (scan bits)"
  by (simp add: scan_def enumerate_append_eq)

lemma settled_snoc: "settled bits s l \<Longrightarrow> settled (bits @ [b]) s l"
  by (auto simp: settled_def nth_append)

lemma scan_inv_zero:
  assumes "scan_inv bits st rs"
  shows "scan_inv (bits @ [0]) (scan_step (length bits, 0) st) rs"
proof -
  let ?n = "length bits" and ?c = "current_run st"
  from assms have c: "?c \<le> ?n" by (simp add: scan_inv_def)
  have z: "(bits @ [0]) ! (Suc ?n - Suc ?c + k) = 0" if "k < Suc ?c" for k
  proof (cases "k < ?c")
    case True
    with assms c show ?thesis by (simp add: scan_inv_def nth_append Suc_diff_le)
  next
    case False
    with that have "k = ?c" by simp
    with c show ?thesis by (simp add: nth_append Suc_diff_le)
  qed
  have p: "(bits @ [0]) ! (Suc ?n - Suc ?c - 1) \<noteq> 0" if "?c < ?n"
    using that assms by (simp add: scan_inv_def nth_append)
  have r: "\<forall>(s, l)\<in>set rs. settled (bits @ [0]) s l \<and> s + l < Suc ?n - Suc ?c"
    using assms by (auto simp: scan_inv_def intro: settled_snoc)
  show ?thesis
    unfolding scan_inv_def
    using assms c z p r
    by (simp add: scan_inv_def scan_step_def zero_count_def)
qed

lemma scan_inv_one:
  assumes "scan_inv bits st rs" and "b \<noteq> 0"
  shows "scan_inv (bits @ [b]) (scan_step (length bits, b) st)
           (if current_run st > 0 then rs @ [(length bits - current_run st, current_run st)] else rs)"
proof -
  let ?n = "length bits" and ?c = "current_run st"
  from assms have c: "?c \<le> ?n" by (simp add: scan_inv_def)
  have old: "\<forall>(s, l)\<in>set rs. settled (bits @ [b]) s l \<and> s + l < Suc ?n"
    using assms by (auto simp: scan_inv_def intro: settled_snoc)
  have old2: "\<forall>(s, l)\<in>set rs. s + l < ?n - ?c"
    using assms by (auto simp: scan_inv_def)
  have new: "settled (bits @ [b]) (?n - ?c) ?c" if "0 < ?c"
    unfolding settled_def
  proof (intro conjI)
    show "0 < ?c" by fact
    show "?n - ?c + ?c < length (bits @ [b])" using c by simp
    show "(bits @ [b]) ! (?n - ?c + ?c) \<noteq> 0" using c assms(2) by (simp add: nth_append)
    show "\<forall>k<?c. (bits @ [b]) ! (?n - ?c + k) = 0"
      using assms(1) c by (auto simp: scan_inv_def nth_append)
    show "?n - ?c = 0 \<or> (bits @ [b]) ! (?n - ?c - 1) \<noteq> 0"
      using assms(1) c by (cases "?c < ?n") (auto simp: scan_inv_def nth_append)
  qed
  have last: "(bits @ [b]) ! ?n \<noteq> 0" using assms(2) by simp
  show ?thesis
  proof (cases "0 < ?c")
    case True
    have srt: "sorted_wrt (\<lambda>a b. fst a + snd a < fst b) (rs @ [(?n - ?c, ?c)])"
      using assms(1) old2 by (auto simp: scan_inv_def sorted_wrt_append)
    show ?thesis
      unfolding scan_inv_def
      using True assms c old new[OF True] srt last
      by (auto simp: scan_inv_def scan_step_def zero_count_def with_start_def)
  next
    case False
    then show ?thesis
      unfolding scan_inv_def
      using assms c old last
      by (auto simp: scan_inv_def scan_step_def zero_count_def with_start_def)
  qed
qed

lemma scan_inv_ex: "\<exists>rs. scan_inv bits (scan bits) rs"
proof (induction bits rule: rev_induct)
  case Nil
  show ?case by (rule exI [of _ "[]"]) (simp add: scan_inv_def scan_def scan_init_def with_start_def zero_count_def)
next
  case (snoc b bits)
  then obtain rs where rs: "scan_inv bits (scan bits) rs" by blast
  show ?case
  proof (cases "b = 0")
    case True
    with scan_inv_zero [OF rs] show ?thesis by (auto simp: scan_snoc)
  next
    case False
    with scan_inv_one [OF rs False] show ?thesis unfolding scan_snoc by blast
  qed
qed

lemma find_zero_runs_scan:
  "find_zero_runs bits =
     (if current_run (scan bits) > 0
      then runs (scan bits) @ [(start_position (scan bits), current_run (scan bits))]
      else runs (scan bits))"
  by (simp add: find_zero_runs_def scan_def Let_def)

lemma settled_closed: "settled bits s l \<Longrightarrow> closed_run bits s l"
  by (auto simp: settled_def closed_run_def)

lemma find_zero_runs_char:
  "\<exists>rs. find_zero_runs bits = with_start rs \<and>
        sorted_wrt (\<lambda>a b. fst a + snd a < fst b) rs \<and>
        sum_list (map snd rs) = zero_count bits \<and>
        (\<forall>(s, l)\<in>set rs. closed_run bits s l)"
proof -
  obtain rs where inv: "scan_inv bits (scan bits) rs" using scan_inv_ex by blast
  let ?n = "length bits" and ?c = "current_run (scan bits)"
  from inv have c: "?c \<le> ?n" by (simp add: scan_inv_def)
  from inv have old: "\<forall>(s, l)\<in>set rs. closed_run bits s l"
    by (auto simp: scan_inv_def intro: settled_closed)
  show ?thesis
  proof (cases "0 < ?c")
    case False
    with inv old show ?thesis
      by (intro exI [of _ rs]) (simp add: find_zero_runs_scan scan_inv_def)
  next
    case True
    have new: "closed_run bits (?n - ?c) ?c"
      unfolding closed_run_def
    proof (intro conjI)
      show "0 < ?c" by fact
      show "?n - ?c + ?c \<le> ?n" using c by simp
      show "\<forall>k<?c. bits ! (?n - ?c + k) = 0" using inv unfolding scan_inv_def by blast
      show "?n - ?c = 0 \<or> bits ! (?n - ?c - 1) \<noteq> 0"
        using inv c by (cases "?c < ?n") (auto simp: scan_inv_def)
      show "?n - ?c + ?c = ?n \<or> bits ! (?n - ?c + ?c) \<noteq> 0" using c by simp
    qed
    have srt: "sorted_wrt (\<lambda>a b. fst a + snd a < fst b) (rs @ [(?n - ?c, ?c)])"
      using inv by (auto simp: scan_inv_def sorted_wrt_append)
    have eq: "find_zero_runs bits = with_start (rs @ [(?n - ?c, ?c)])"
      using inv True by (simp add: find_zero_runs_scan scan_inv_def with_start_def)
    have sm: "sum_list (map snd (rs @ [(?n - ?c, ?c)])) = zero_count bits"
      using inv by (simp add: scan_inv_def)
    from eq srt sm old new show ?thesis
      by (intro exI [of _ "rs @ [(?n - ?c, ?c)]"]) auto
  qed
qed

lemma separated_non_overlapping:
  assumes "sorted_wrt (\<lambda>a b. fst a + snd a < fst b) rs"
  shows "non_overlapping rs"
  unfolding non_overlapping_def
proof (intro allI impI)
  fix j i assume "j < length rs" "i < j"
  with assms have "fst (rs ! i) + snd (rs ! i) < fst (rs ! j)"
    by (simp add: sorted_wrt_iff_nth_less)
  then show "fst (rs ! i) + snd (rs ! i) \<le> fst (rs ! j)" by simp
qed

lemma separated_ascending:
  assumes "sorted_wrt (\<lambda>a b. fst a + snd a < fst b) rs"
  shows "ascending_starts rs"
  unfolding ascending_starts_def sorted_wrt_map
  by (rule sorted_wrt_mono_rel [OF _ assms]) simp

lemma closed_maximal:
  assumes "set bits \<subseteq> {0, 1}" and "closed_run bits s l"
  shows "maximal_run bits s l"
proof -
  have one: "bits ! k = 1" if "k < length bits" "bits ! k \<noteq> 0" for k
  proof -
    from nth_mem [OF that(1)] assms(1) have "bits ! k \<in> {0, 1}" by blast
    with that(2) show ?thesis by simp
  qed
  from assms(2) have l: "0 < l" and le: "s + l \<le> length bits"
    by (simp_all add: closed_run_def)
  have left: "s = 0 \<or> bits ! (s - 1) = 1"
  proof (cases "s = 0")
    case False
    with assms(2) have "bits ! (s - 1) \<noteq> 0" by (simp add: closed_run_def)
    moreover have "s - 1 < length bits" using le l False by simp
    ultimately show ?thesis using one by blast
  qed simp
  have right: "s + l = length bits \<or> bits ! (s + l) = 1"
  proof (cases "s + l = length bits")
    case False
    with assms(2) have "bits ! (s + l) \<noteq> 0" by (simp add: closed_run_def)
    moreover have "s + l < length bits" using le False by simp
    ultimately show ?thesis using one by blast
  qed simp
  from assms(2) left right show ?thesis
    by (simp add: closed_run_def maximal_run_def)
qed

text \<open>
  Claim C4. For every binary sequence, every run that \<^verbatim>\<open>find_zero_runs\<close> returns
  has a start position, the runs do not overlap, their start positions ascend strictly,
  their lengths sum to the number of zero bits, and each run is maximal: the bit before
  its start and the bit after its end are 1 or lie outside the sequence.
\<close>
theorem find_zero_runs_maximal_runs:
  assumes "set bits \<subseteq> {0, 1}"
  shows "\<exists>rs. find_zero_runs bits = with_start rs \<and>
              non_overlapping rs \<and> ascending_starts rs \<and>
              sum_list (map snd rs) = zero_count bits \<and>
              (\<forall>(s, l)\<in>set rs. maximal_run bits s l)"
proof -
  from find_zero_runs_char [of bits] obtain rs where
    eq: "find_zero_runs bits = with_start rs" and
    srt: "sorted_wrt (\<lambda>a b. fst a + snd a < fst b) rs" and
    sm: "sum_list (map snd rs) = zero_count bits" and
    cl: "\<forall>(s, l)\<in>set rs. closed_run bits s l"
    by blast
  from cl assms have "\<forall>(s, l)\<in>set rs. maximal_run bits s l"
    by (auto intro: closed_maximal)
  with eq sm separated_non_overlapping [OF srt] separated_ascending [OF srt]
  show ?thesis by blast
qed

lemma with_start_inj: "with_start rs = with_start rs' \<Longrightarrow> rs = rs'"
  unfolding with_start_def
  by (rule injD [OF inj_mapI, of "\<lambda>(s, l). (Some s, l)"]) (auto simp: inj_on_def)

theorem find_zero_runs_maximal_runs_witness:
  "set [0, 0, 1, 0, 1, 1, 0, 0 :: int] \<subseteq> {0, 1} \<and>
   find_zero_runs [0, 0, 1, 0, 1, 1, 0, 0] = with_start [(0, 2), (3, 1), (6, 2)] \<and>
   non_overlapping [(0, 2), (3, 1), (6, 2)] \<and>
   ascending_starts [(0, 2), (3, 1), (6, 2)] \<and>
   sum_list (map snd [(0, 2), (3, 1), (6, 2 :: nat)]) = zero_count [0, 0, 1, 0, 1, 1, 0, 0] \<and>
   maximal_run [0, 0, 1, 0, 1, 1, 0, 0] 0 2 \<and>
   maximal_run [0, 0, 1, 0, 1, 1, 0, 0] 3 1 \<and>
   maximal_run [0, 0, 1, 0, 1, 1, 0, 0] 6 2"
proof -
  let ?bits = "[0, 0, 1, 0, 1, 1, 0, 0 :: int]"
  have h: "set ?bits \<subseteq> {0, 1}" by simp
  have ev: "find_zero_runs ?bits = with_start [(0, 2), (3, 1), (6, 2)]"
    by (simp add: find_zero_runs_def scan_step_def scan_init_def enumerate_eq_zip upt_rec
        with_start_def)
  from find_zero_runs_maximal_runs [OF h] obtain rs where
    rs: "find_zero_runs ?bits = with_start rs" and
    p: "non_overlapping rs \<and> ascending_starts rs \<and>
        sum_list (map snd rs) = zero_count ?bits \<and>
        (\<forall>(s, l)\<in>set rs. maximal_run ?bits s l)"
    by blast
  from rs ev have "rs = [(0, 2), (3, 1), (6, 2)]" by (simp add: with_start_inj)
  with p h ev show ?thesis by simp
qed

section \<open>The validation\<close>

lemma analyze_runs_with_start:
  "analyze_runs fac (with_start rs) st =
     Inr (fold (analyze_run fac) (filter (\<lambda>r. 1 \<le> fst r) rs) st)"
proof (induction rs arbitrary: st)
  case Nil
  show ?case by (simp add: with_start_def)
next
  case (Cons r rs)
  obtain p l where r: "r = (p, l)" by (cases r)
  from Cons.IH show ?case
    by (simp add: with_start_def r not_less)
qed











text \<open>Without run data the statistics are empty and nothing is computed.\<close>

lemma calculate_statistics_empty: "calculate_statistics lib [] = Inr None"
  by (simp add: calculate_statistics_def)

text \<open>
  Claim C2. With fewer than two analysed runs the statistics should be empty and the
  validation should succeed. For the value 1/2 with factor 2 and 8 bits there is exactly
  one analysed run, the statistics are computed all the same, and the sample standard
  deviation of one ratio raises \<^verbatim>\<open>StatisticsError\<close>: the validation fails.
\<close>
theorem validate_number_single_run_raises:
  "validate_number lib (1 / 2) 2 8 False = Inl StatisticsError"
  by (simp add: validate_number_def gbe_half fzr_10000000 analyze_run_def ratio_of_def
      bound_of_def py_max_def calculate_statistics_def stats_of_def mean_median_stdev_def
      mean_def median_def stdev_def Let_def)

lemma analyze_runs_analysis_of:
  "analyze_runs fac (with_start rs)
     \<lparr>ls_max_ratio = Fin 0, ls_run_data = [], ls_violations = []\<rparr> = Inr (analysis_of fac rs)"
  by (simp only: analyze_runs_with_start analysis_of_def)

lemma validate_number_fields:
  assumes "validate_number lib num fac len t = Inr res"
    and rs: "find_zero_runs (get_binary_expansion num len) = with_start rs"
  shows "valid res = (ls_violations (analysis_of fac rs) = [])"
    and "violations res = ls_violations (analysis_of fac rs)"
    and "max_ratio res = ls_max_ratio (analysis_of fac rs)"
    and "run_data res = ls_run_data (analysis_of fac rs)"
    and "total_runs res = length rs"
    and "calculate_statistics lib (ls_run_data (analysis_of fac rs)) = Inr (stats res)"
proof -
  from assms(1) obtain sts where
    sts: "calculate_statistics lib (ls_run_data (analysis_of fac rs)) = Inr sts" and
    res: "res = \<lparr>valid = (length (ls_violations (analysis_of fac rs)) = 0),
                 violations = ls_violations (analysis_of fac rs),
                 max_ratio = ls_max_ratio (analysis_of fac rs),
                 total_runs = length (with_start rs),
                 binary_prefix = take 50 (get_binary_expansion num len),
                 stats = sts,
                 number_type = (if t then ''transcendental'' else ''algebraic''),
                 factor = fac,
                 factor_name = (if t then mu_name else ''d (degree)''),
                 number = num,
                 run_data = ls_run_data (analysis_of fac rs)\<rparr>"
    unfolding validate_number_def Let_def rs analyze_runs_analysis_of
    by (simp split: sum.splits)
  show "valid res = (ls_violations (analysis_of fac rs) = [])" by (simp add: res)
  show "violations res = ls_violations (analysis_of fac rs)" by (simp add: res)
  show "max_ratio res = ls_max_ratio (analysis_of fac rs)" by (simp add: res)
  show "run_data res = ls_run_data (analysis_of fac rs)" by (simp add: res)
  show "total_runs res = length rs" by (simp add: res with_start_def)
  show "calculate_statistics lib (ls_run_data (analysis_of fac rs)) = Inr (stats res)"
    by (simp add: res sts)
qed





lemma validate_five_eighths:
  "validate_number lib (5 / 8) 1 5 False =
     Inr \<lparr>valid = True, violations = [], max_ratio = Fin 1, total_runs = 2,
          binary_prefix = [1, 0, 1, 0, 0],
          stats = Some \<lparr>mean_ratio = Fin 1, median_ratio = Fin 1, std_ratio = Fin 0,
                        ratio_distribution = \<lparr>low = 0, medium = 0, high = 2\<rparr>\<rparr>,
          number_type = ''algebraic'', factor = 1, factor_name = ''d (degree)'',
          number = 5 / 8,
          run_data = [\<lparr>d_position = 1, d_length = 1, d_bound = Fin 1, d_ratio = Fin 1\<rparr>,
                      \<lparr>d_position = 3, d_length = 2, d_bound = Fin 2, d_ratio = Fin 1\<rparr>]\<rparr>"
  by (simp add: validate_number_def gbe_five_eighths fzr_10100 analyze_run_def ratio_of_def
      bound_of_def py_max_def calculate_statistics_def stats_of_def mean_median_stdev_def
      mean_def median_def stdev_def distribution_of_def log_2_4 Let_def)













section \<open>The statistics\<close>





lemma stats_scenario:
  "stats_of lib [Fin 0.2, Fin 0.5] =
     Inr \<lparr>mean_ratio = Fin 0.35, median_ratio = Fin 0.35, std_ratio = Fin (sqrt 0.045),
          ratio_distribution = \<lparr>low = 1, medium = 1, high = 0\<rparr>\<rparr>"
  by (simp add: stats_of_def mean_median_stdev_def mean_def median_def stdev_def
      distribution_of_def Let_def power2_eq_square)

lemma finite_values_map: "finite_values ratios = Some xs \<Longrightarrow> ratios = map Fin xs"
proof (induction ratios arbitrary: xs)
  case Nil
  then show ?case by simp
next
  case (Cons r rs)
  then show ?case by (cases r) auto
qed

lemma stats_of_finite:
  assumes "finite_values ratios = Some xs" and "2 \<le> length xs"
  shows "stats_of lib ratios =
           Inr \<lparr>mean_ratio = Fin (arithmetic_mean xs),
                median_ratio = Fin (midpoint_median xs),
                std_ratio = Fin (sqrt (sum_list (map (\<lambda>x. (x - arithmetic_mean xs)\<^sup>2) xs)
                                       / real (length xs - 1))),
                ratio_distribution = distribution_of ratios\<rparr>"
proof -
  from assms(2) have ne: "xs \<noteq> []" by auto
  from assms(2) have m: "mean xs = Inr (arithmetic_mean xs)"
    using ne by (simp add: mean_def arithmetic_mean_def)
  have sne: "sort xs \<noteq> []"
  proof
    assume "sort xs = []"
    then have "length (sort xs) = 0" by simp
    with ne show False by simp
  qed
  have md: "median xs = Inr (midpoint_median xs)"
  proof (cases "even (length xs)")
    case True
    then have "length xs mod 2 = 0" by presburger
    with True sne show ?thesis by (simp add: median_def midpoint_median_def Let_def)
  next
    case False
    then have "length xs mod 2 = Suc 0" by presburger
    with False sne show ?thesis by (simp add: median_def midpoint_median_def Let_def)
  qed
  have sd: "stdev xs = Inr (sqrt (sum_list (map (\<lambda>x. (x - arithmetic_mean xs)\<^sup>2) xs)
                                       / real (length xs - 1)))"
    using assms(2) by (simp add: stdev_def Let_def arithmetic_mean_def)
  show ?thesis
    by (simp add: stats_of_def mean_median_stdev_def assms(1) m md sd)
qed

text \<open>
  Claim C7. For at least two finite ratios the statistics hold their arithmetic mean and
  their median, the middle element of the sorted ratios or the average of the two middle
  ones on an even count; the statistics of a validation that returns with run data are
  those of the ratios of its run data; and the ratios 0.2 and 0.5 give mean 0.35, median
  0.35 and the counts low 1, medium 1, high 0.
\<close>
theorem stats_mean_median:
  "(finite_values ratios = Some xs \<and> 2 \<le> length xs \<longrightarrow>
      (\<exists>s. stats_of lib ratios = Inr s \<and>
           mean_ratio s = Fin (arithmetic_mean xs) \<and>
           median_ratio s = Fin (midpoint_median xs) \<and>
           ratio_distribution s = distribution_of ratios)) \<and>
   (validate_number lib num fac len t = Inr res \<and> run_data res \<noteq> [] \<longrightarrow>
      (\<exists>s. stats res = Some s \<and> stats_of lib (map d_ratio (run_data res)) = Inr s)) \<and>
   stats_of lib [Fin 0.2, Fin 0.5] =
     Inr \<lparr>mean_ratio = Fin 0.35, median_ratio = Fin 0.35, std_ratio = Fin (sqrt 0.045),
          ratio_distribution = \<lparr>low = 1, medium = 1, high = 0\<rparr>\<rparr>"
proof (intro conjI impI)
  assume "finite_values ratios = Some xs \<and> 2 \<le> length xs"
  then have "stats_of lib ratios =
           Inr \<lparr>mean_ratio = Fin (arithmetic_mean xs),
                median_ratio = Fin (midpoint_median xs),
                std_ratio = Fin (sqrt (sum_list (map (\<lambda>x. (x - arithmetic_mean xs)\<^sup>2) xs)
                                       / real (length xs - 1))),
                ratio_distribution = distribution_of ratios\<rparr>"
    by (intro stats_of_finite) simp_all
  then show "\<exists>s. stats_of lib ratios = Inr s \<and>
           mean_ratio s = Fin (arithmetic_mean xs) \<and>
           median_ratio s = Fin (midpoint_median xs) \<and>
           ratio_distribution s = distribution_of ratios"
    by simp
next
  assume a: "validate_number lib num fac len t = Inr res \<and> run_data res \<noteq> []"
  obtain rs where rs: "find_zero_runs (get_binary_expansion num len) = with_start rs"
    using find_zero_runs_char by blast
  from a have ok: "validate_number lib num fac len t = Inr res" by simp
  note f = validate_number_fields [OF ok rs]
  from a f(4) have ne: "ls_run_data (analysis_of fac rs) \<noteq> []" by simp
  from f(6) ne show "\<exists>s. stats res = Some s \<and> stats_of lib (map d_ratio (run_data res)) = Inr s"
    unfolding f(4) calculate_statistics_def by (auto split: sum.splits)
next
  show "stats_of lib [Fin 0.2, Fin 0.5] =
     Inr \<lparr>mean_ratio = Fin 0.35, median_ratio = Fin 0.35, std_ratio = Fin (sqrt 0.045),
          ratio_distribution = \<lparr>low = 1, medium = 1, high = 0\<rparr>\<rparr>"
    by (rule stats_scenario)
qed

theorem stats_mean_median_witness:
  "finite_values [Fin 1, Fin 1] = Some [1, 1] \<and> 2 \<le> length [1, 1 :: real] \<and>
   validate_number (\<lambda>_. Inl LibraryError) (5 / 8) 1 5 False =
     Inr \<lparr>valid = True, violations = [], max_ratio = Fin 1, total_runs = 2,
          binary_prefix = [1, 0, 1, 0, 0],
          stats = Some \<lparr>mean_ratio = Fin 1, median_ratio = Fin 1, std_ratio = Fin 0,
                        ratio_distribution = \<lparr>low = 0, medium = 0, high = 2\<rparr>\<rparr>,
          number_type = ''algebraic'', factor = 1, factor_name = ''d (degree)'',
          number = 5 / 8,
          run_data = [\<lparr>d_position = 1, d_length = 1, d_bound = Fin 1, d_ratio = Fin 1\<rparr>,
                      \<lparr>d_position = 3, d_length = 2, d_bound = Fin 2, d_ratio = Fin 1\<rparr>]\<rparr> \<and>
   arithmetic_mean [1, 1] = 1 \<and> midpoint_median [1, 1] = 1 \<and>
   (\<exists>s. stats_of (\<lambda>_. Inl LibraryError) [Fin 1, Fin 1] = Inr s \<and>
        mean_ratio s = Fin 1 \<and> median_ratio s = Fin 1)"
proof -
  let ?res = "\<lparr>valid = True, violations = [], max_ratio = Fin 1, total_runs = 2,
          binary_prefix = [1, 0, 1, 0, 0],
          stats = Some \<lparr>mean_ratio = Fin 1, median_ratio = Fin 1, std_ratio = Fin 0,
                        ratio_distribution = \<lparr>low = 0, medium = 0, high = 2\<rparr>\<rparr>,
          number_type = ''algebraic'', factor = 1, factor_name = ''d (degree)'',
          number = 5 / 8,
          run_data = [\<lparr>d_position = 1, d_length = 1, d_bound = Fin 1, d_ratio = Fin 1\<rparr>,
                      \<lparr>d_position = 3, d_length = 2, d_bound = Fin 2, d_ratio = Fin 1\<rparr>]\<rparr>"
  have fv: "finite_values [Fin 1, Fin 1] = Some [1, 1]" by simp
  have am: "arithmetic_mean [1, 1] = 1" by (simp add: arithmetic_mean_def)
  have mm: "midpoint_median [1, 1] = 1" by (simp add: midpoint_median_def)
  from stats_mean_median [of "[Fin 1, Fin 1]" "[1, 1]" "\<lambda>_. Inl LibraryError" "5 / 8" 1 5 False ?res]
    fv am mm validate_five_eighths [of "\<lambda>_. Inl LibraryError"]
  show ?thesis by simp
qed

section \<open>The report entries\<close>

text \<open>The example result is what the validation returns for the example case.\<close>

lemma validate_zero_factor:
  "validate_number (\<lambda>_. Inr (PInf, PInf, NaN)) (5 / 8) 0 5 False = Inr example_result"
  by (simp add: validate_number_def gbe_five_eighths fzr_10100 analyze_run_def ratio_of_def
      bound_of_def py_max_def calculate_statistics_def stats_of_def mean_median_stdev_def
      distribution_of_def example_result_def Let_def)

text \<open>
  Claim C8, amended. \<^verbatim>\<open>create_report\<close> makes one entry for every result and
  copies \<open>max_ratio\<close> and the ratio of every violation and of every run datum into it
  unchanged, whether the ratio is finite or not.
\<close>
theorem create_report_keeps_ratios:
  "length (create_report results) = length results \<and>
   map e_max_ratio (create_report results) = map (\<lambda>cr. max_ratio (snd cr)) results \<and>
   map (\<lambda>e. map v_ratio (e_violations e)) (create_report results) =
     map (\<lambda>cr. map v_ratio (violations (snd cr))) results \<and>
   map (\<lambda>e. map d_ratio (e_run_data e)) (create_report results) =
     map (\<lambda>cr. map d_ratio (run_data (snd cr))) results"
  by (simp add: create_report_def report_entry_of_def float_of_def convert_violation_def
      convert_run_datum_def comp_def split: prod.splits)

text \<open>
  Claim C8 as stated says that a ratio that is not finite is replaced by a finite value
  or a marker. For the example result, whose \<open>max_ratio\<close> is \<open>+\<infinity>\<close>, the entry of
  the report holds \<open>+\<infinity>\<close> itself, as do the ratios of its violations.
\<close>
theorem infinite_ratio_not_converted:
  "max_ratio example_result = PInf \<and>
   map e_max_ratio (create_report [(example_case, example_result)]) = [PInf] \<and>
   concat (map (\<lambda>e. map v_ratio (e_violations e))
             (create_report [(example_case, example_result)])) = [PInf, PInf] \<and>
   \<not> is_finite (e_max_ratio (report_entry_of (example_case, example_result)))"
  by (simp add: create_report_def report_entry_of_def float_of_def convert_violation_def
      example_result_def)


text \<open>
  The type that an entry reports is the type of the test case. For a pair that
  \<^verbatim>\<open>run_analysis\<close> builds from a test case of type algebraic or transcendental
  it is also the number type that the result records.
\<close>

lemma validate_number_type:
  assumes "validate_number lib num fac len t = Inr res"
  shows "number_type res = (if t then ''transcendental'' else ''algebraic'')"
  using assms by (auto simp: validate_number_def Let_def split: sum.splits)

lemma run_case_report_type:
  assumes "run_case lib n c = Inr (c', r)"
    and "c_type c = ''algebraic'' \<or> c_type c = ''transcendental''"
  shows "c' = c \<and> e_type (report_entry_of (c', r)) = number_type r"
proof -
  from assms(1) have c: "c' = c"
    and v: "validate_number lib (c_number c) (c_factor c) n (c_type c = ''transcendental'') = Inr r"
    by (auto simp: run_case_def split: sum.splits)
  from validate_number_type [OF v] assms(2) c show ?thesis
    by (auto simp: report_entry_of_def)
qed

end
